theory Spec2Isabelle
  imports Main "HOL-Library.AList"
begin

section \<open>Data model of etcdstore.go\<close>

text \<open>
  A Go \<open>[]byte\<close> and a Go \<open>string\<close> are both byte sequences; \<open>string(b)\<close> keeps the
  bytes. Both are modelled as \<open>string\<close> (a list of 8-bit characters).
\<close>

type_synonym bytes = string

text \<open>
  A value of type \<open>interface{}\<close>: either a Go \<open>string\<close>, the only dynamic type the type
  assertion \<open>k.(string)\<close> accepts, or a value of any other dynamic type.
\<close>

datatype 'a iface = Str string | Dyn 'a

text \<open>
  \<open>map[interface{}]interface{}\<close> as an association list, in the order a \<open>range\<close> loop
  visits it. \<open>m[k] = v\<close> is \<open>AList.update k v m\<close>; a Go map holds each key once.
\<close>

type_synonym 'a value_map = "('a iface \<times> 'a iface) list"

text \<open>
  Errors are values. \<open>ErrTooBig\<close> is the \<open>errors.New\<close> of \<open>save\<close>, \<open>ErrNonStringKey\<close>
  the \<open>fmt.Errorf\<close> of \<open>JSONSerializer.Serialize\<close> (its text, which renders the key, is not
  kept), and \<open>ErrExternal\<close> any error value handed back by a library or by the backend.
\<close>

datatype error = ErrTooBig | ErrNonStringKey | ErrExternal string

text \<open>\<open>sessions.Options\<close>: the fields the package and its cookies use.\<close>

record session_options =
  Path :: string
  Domain :: string
  MaxAge :: int
  Secure :: bool
  HttpOnly :: bool

text \<open>
  \<open>sessions.Session\<close>. \<open>Options\<close> is a pointer: the address of a \<open>session_options\<close> value
  in the heap of the \<open>world\<close> below.
\<close>

record 'a session =
  ID :: string
  name :: string
  Values :: "'a value_map"
  Options :: nat
  IsNew :: bool

text \<open>The responses of the etcd client the code reads: \<open>lease.ID\<close> and \<open>data.Kvs[i].Value\<close>.\<close>

record lease =
  lease_ID :: int

record key_value =
  kv_Key :: string
  kv_Value :: bytes

record get_response =
  Kvs :: "key_value list"

text \<open>
  The etcd client is an external service. Its four operations are parameters: each takes
  the backend's state and returns the next one with its answer. \<open>clientGet\<close> answers
  \<open>Inr None\<close> for a nil response with a nil error.
\<close>

record 'b client =
  clientGrant :: "'b \<Rightarrow> int \<Rightarrow> (error + lease) \<times> 'b"
  clientPut :: "'b \<Rightarrow> string \<Rightarrow> bytes \<Rightarrow> int \<Rightarrow> error option \<times> 'b"
  clientGet :: "'b \<Rightarrow> string \<Rightarrow> (error + get_response option) \<times> 'b"
  clientDelete :: "'b \<Rightarrow> string \<Rightarrow> error option \<times> 'b"

text \<open>Every call made on the client is recorded, in order.\<close>

datatype call =
  CallGrant int
| CallPut string bytes int
| CallGet string
| CallDelete string

text \<open>
  The mutable world: the heap of \<open>sessions.Options\<close> values with its allocation pointer,
  the backend's state and the record of the calls made on it.
\<close>

record 'b world =
  heap :: "nat \<Rightarrow> session_options"
  next_addr :: nat
  etcd :: 'b
  calls :: "call list"

text \<open>The \<open>SessionSerializer\<close> interface. \<open>Deserialize\<close> writes into the session it is given.\<close>

record 'a serializer =
  Serialize :: "'a session \<Rightarrow> error + bytes"
  Deserialize :: "bytes \<Rightarrow> 'a session \<Rightarrow> error option \<times> 'a session"

text \<open>
  A \<open>securecookie.Codec\<close> is either a \<open>*securecookie.SecureCookie\<close>, of which the keys and
  the age limit set by its \<open>MaxAge\<close> method are kept, or a codec of another type.
\<close>

record secure_cookie =
  hashKey :: bytes
  blockKey :: bytes
  maxAge :: int

datatype 'c codec = SecureCookie secure_cookie | OtherCodec 'c

text \<open>
  The functions of \<open>securecookie\<close> and \<open>encoding/base32\<close> that the code calls, as
  parameters. \<open>GenerateRandomKey\<close> stands for the bytes the call of \<open>Save\<close> draws.
\<close>

record 'c libs =
  DecodeMulti :: "string \<Rightarrow> string \<Rightarrow> 'c codec list \<Rightarrow> error + string"
  EncodeMulti :: "string \<Rightarrow> string \<Rightarrow> 'c codec list \<Rightarrow> error + string"
  GenerateRandomKey :: "nat \<Rightarrow> bytes"
  EncodeToString :: "bytes \<Rightarrow> string"

record ('a, 'b, 'c) EtcdStore =
  client :: "'b client"
  Codecs :: "'c codec list"
  options :: nat
  DefaultMaxAge :: int
  maxLength :: int
  keyPrefix :: string
  serializer :: "'a serializer"

text \<open>
  The request carries its cookies (\<open>r.Cookie(name)\<close> finds the first of that name); the
  response writer collects the cookies \<open>http.SetCookie\<close> adds. \<open>sessions.NewCookie\<close> copies
  the name, the value and the fields of the options it is given; the expiry date it derives
  from \<open>MaxAge\<close> and the clock is not kept.
\<close>

record request =
  cookies :: "(string \<times> string) list"

record cookie =
  cookie_Name :: string
  cookie_Value :: string
  cookie_Options :: session_options

type_synonym response_writer = "cookie list"

definition NewCookie :: "string \<Rightarrow> string \<Rightarrow> session_options \<Rightarrow> cookie" where
  "NewCookie n v opts = \<lparr>cookie_Name = n, cookie_Value = v, cookie_Options = opts\<rparr>"

text \<open>
  \<open>http.SetCookie\<close> adds the header only when the cookie renders to a non-empty string, and
  a cookie renders to the empty string when its name is not a valid cookie name: the name
  must be non-empty and consist of HTTP token characters (the digits, the letters and
  \<^verbatim>\<open>! # $ % & ' * + - . ^ _ ` | ~\<close>). A cookie with any other name is dropped without
  an error.
\<close>

definition IsTokenRune :: "char \<Rightarrow> bool" where
  "IsTokenRune c =
     (let n = (of_char c :: nat)
      in (48 \<le> n \<and> n \<le> 57) \<or> (65 \<le> n \<and> n \<le> 90) \<or> (97 \<le> n \<and> n \<le> 122) \<or>
         n \<in> {33, 35, 36, 37, 38, 39, 42, 43, 45, 46, 94, 95, 96, 124, 126})"

definition isCookieNameValid :: "string \<Rightarrow> bool" where
  "isCookieNameValid raw = (raw \<noteq> [] \<and> list_all IsTokenRune raw)"

definition SetCookie :: "response_writer \<Rightarrow> cookie \<Rightarrow> response_writer" where
  "SetCookie w c = (if isCookieNameValid (cookie_Name c) then w @ [c] else w)"

section \<open>The serializers\<close>

text \<open>
  \<open>encoding/json\<close> and \<open>encoding/gob\<close> are parameters. \<open>json.Unmarshal\<close> fills a fresh
  \<open>map[string]interface{}\<close>; \<open>gob\<close>'s \<open>Decode\<close> is given the address of the session's
  own value map, so it reads and writes that map.
\<close>

record 'a json_lib =
  json_Marshal :: "(string \<times> 'a iface) list \<Rightarrow> error + bytes"
  json_Unmarshal :: "bytes \<Rightarrow> error + (string \<times> 'a iface) list"

record 'a gob_lib =
  gob_Encode :: "'a value_map \<Rightarrow> error + bytes"
  gob_Decode :: "bytes \<Rightarrow> 'a value_map \<Rightarrow> error option \<times> 'a value_map"

text \<open>The loop of \<open>JSONSerializer.Serialize\<close> over \<open>ss.Values\<close>, filling \<open>m\<close>.\<close>

fun json_collect ::
  "'a value_map \<Rightarrow> (string \<times> 'a iface) list \<Rightarrow> error + (string \<times> 'a iface) list" where
  "json_collect [] m = Inr m"
| "json_collect ((k, v) # kvs) m =
     (case k of
        Str ks \<Rightarrow> json_collect kvs (AList.update ks v m)
      | Dyn _ \<Rightarrow> Inl ErrNonStringKey)"

definition JSONSerializer_Serialize :: "'a json_lib \<Rightarrow> 'a session \<Rightarrow> error + bytes" where
  "JSONSerializer_Serialize J ss =
     (case json_collect (Values ss) [] of
        Inl err \<Rightarrow> Inl err
      | Inr m \<Rightarrow> json_Marshal J m)"

text \<open>The loop of \<open>JSONSerializer.Deserialize\<close>: \<open>ss.Values[k] = v\<close> for each decoded pair.\<close>

fun json_merge :: "(string \<times> 'a iface) list \<Rightarrow> 'a value_map \<Rightarrow> 'a value_map" where
  "json_merge [] vals = vals"
| "json_merge ((k, v) # m) vals = json_merge m (AList.update (Str k) v vals)"

definition JSONSerializer_Deserialize ::
  "'a json_lib \<Rightarrow> bytes \<Rightarrow> 'a session \<Rightarrow> error option \<times> 'a session" where
  "JSONSerializer_Deserialize J d ss =
     (case json_Unmarshal J d of
        Inl err \<Rightarrow> (Some err, ss)
      | Inr m \<Rightarrow> (None, ss\<lparr>Values := json_merge m (Values ss)\<rparr>))"

definition JSONSerializer :: "'a json_lib \<Rightarrow> 'a serializer" where
  "JSONSerializer J =
     \<lparr>Serialize = JSONSerializer_Serialize J, Deserialize = JSONSerializer_Deserialize J\<rparr>"

definition GobSerializer_Serialize :: "'a gob_lib \<Rightarrow> 'a session \<Rightarrow> error + bytes" where
  "GobSerializer_Serialize G ss =
     (case gob_Encode G (Values ss) of
        Inr buf \<Rightarrow> Inr buf
      | Inl err \<Rightarrow> Inl err)"

definition GobSerializer_Deserialize ::
  "'a gob_lib \<Rightarrow> bytes \<Rightarrow> 'a session \<Rightarrow> error option \<times> 'a session" where
  "GobSerializer_Deserialize G d ss =
     (case gob_Decode G d (Values ss) of
        (err, vals) \<Rightarrow> (err, ss\<lparr>Values := vals\<rparr>))"

definition GobSerializer :: "'a gob_lib \<Rightarrow> 'a serializer" where
  "GobSerializer G =
     \<lparr>Serialize = GobSerializer_Serialize G, Deserialize = GobSerializer_Deserialize G\<rparr>"

section \<open>The store\<close>

subsection \<open>Calls on the etcd client\<close>

definition etcd_Grant :: "'b client \<Rightarrow> int \<Rightarrow> 'b world \<Rightarrow> (error + lease) \<times> 'b world" where
  "etcd_Grant c ttl w =
     (case clientGrant c (etcd w) ttl of
        (r, b) \<Rightarrow> (r, w\<lparr>etcd := b, calls := calls w @ [CallGrant ttl]\<rparr>))"

definition etcd_Put ::
  "'b client \<Rightarrow> string \<Rightarrow> bytes \<Rightarrow> int \<Rightarrow> 'b world \<Rightarrow> error option \<times> 'b world" where
  "etcd_Put c k v l w =
     (case clientPut c (etcd w) k v l of
        (r, b) \<Rightarrow> (r, w\<lparr>etcd := b, calls := calls w @ [CallPut k v l]\<rparr>))"

definition etcd_Get ::
  "'b client \<Rightarrow> string \<Rightarrow> 'b world \<Rightarrow> (error + get_response option) \<times> 'b world" where
  "etcd_Get c k w =
     (case clientGet c (etcd w) k of
        (r, b) \<Rightarrow> (r, w\<lparr>etcd := b, calls := calls w @ [CallGet k]\<rparr>))"

definition etcd_Delete :: "'b client \<Rightarrow> string \<Rightarrow> 'b world \<Rightarrow> error option \<times> 'b world" where
  "etcd_Delete c k w =
     (case clientDelete c (etcd w) k of
        (r, b) \<Rightarrow> (r, w\<lparr>etcd := b, calls := calls w @ [CallDelete k]\<rparr>))"

subsection \<open>Configuration\<close>

definition sessionExpire :: int where
  "sessionExpire = 86400 * 30"

definition SetMaxLength :: "('a, 'b, 'c) EtcdStore \<Rightarrow> int \<Rightarrow> ('a, 'b, 'c) EtcdStore" where
  "SetMaxLength s l = (if l \<ge> 0 then s\<lparr>maxLength := l\<rparr> else s)"

definition SetKeyPrefix :: "('a, 'b, 'c) EtcdStore \<Rightarrow> string \<Rightarrow> ('a, 'b, 'c) EtcdStore" where
  "SetKeyPrefix s p = s\<lparr>keyPrefix := p\<rparr>"

definition SetSerializer ::
  "('a, 'b, 'c) EtcdStore \<Rightarrow> 'a serializer \<Rightarrow> ('a, 'b, 'c) EtcdStore" where
  "SetSerializer s ss = s\<lparr>serializer := ss\<rparr>"

text \<open>
  The loop of \<open>SetMaxAge\<close> over \<open>s.Codecs\<close>: a \<open>*SecureCookie\<close> gets \<open>c.MaxAge(v)\<close>, any
  other codec is left as it is (the code prints a message).
\<close>

fun set_codecs_max_age :: "int \<Rightarrow> 'c codec list \<Rightarrow> 'c codec list" where
  "set_codecs_max_age v [] = []"
| "set_codecs_max_age v (SecureCookie c # cs) =
     SecureCookie (c\<lparr>maxAge := v\<rparr>) # set_codecs_max_age v cs"
| "set_codecs_max_age v (OtherCodec x # cs) = OtherCodec x # set_codecs_max_age v cs"

definition SetMaxAge ::
  "('a, 'b, 'c) EtcdStore \<Rightarrow> int \<Rightarrow> 'b world \<Rightarrow> ('a, 'b, 'c) EtcdStore \<times> 'b world" where
  "SetMaxAge s v w =
     (let w1 = w\<lparr>heap := (heap w)(options s := (heap w (options s))\<lparr>MaxAge := v\<rparr>)\<rparr>
      in (s\<lparr>Codecs := set_codecs_max_age v (Codecs s)\<rparr>, w1))"

text \<open>
  \<open>NewEtcdStore\<close>: the codecs are those \<open>securecookie.CodecsFromPairs\<close> built from the key
  pairs, the serializer is the \<open>GobSerializer\<close>; the options are allocated.
\<close>

definition NewEtcdStore ::
  "'b client \<Rightarrow> 'c codec list \<Rightarrow> 'a gob_lib \<Rightarrow> 'b world \<Rightarrow> ('a, 'b, 'c) EtcdStore \<times> 'b world" where
  "NewEtcdStore cl cs G w =
     (let a = next_addr w;
          w1 = w\<lparr>heap := (heap w)(a := \<lparr>Path = ''/'', Domain = '''', MaxAge = sessionExpire,
                                          Secure = False, HttpOnly = False\<rparr>),
                  next_addr := Suc a\<rparr>
      in (\<lparr>client = cl, Codecs = cs, options = a, DefaultMaxAge = 60 * 20,
           maxLength = 4096, keyPrefix = ''session_'', serializer = GobSerializer G\<rparr>, w1))"

subsection \<open>load, save, delete\<close>

definition load ::
  "('a, 'b, 'c) EtcdStore \<Rightarrow> 'a session \<Rightarrow> 'b world
     \<Rightarrow> (bool \<times> error option) \<times> 'a session \<times> 'b world" where
  "load s session w =
     (case etcd_Get (client s) (keyPrefix s @ ID session) w of
        (Inl err, w1) \<Rightarrow> ((False, Some err), session, w1)
      | (Inr data, w1) \<Rightarrow>
          (case data of
             None \<Rightarrow> ((False, None), session, w1)
           | Some resp \<Rightarrow>
               if length (Kvs resp) \<noteq> 1 then ((False, None), session, w1)
               else (case Deserialize (serializer s) (kv_Value (Kvs resp ! 0)) session of
                       (err, session1) \<Rightarrow> ((True, err), session1, w1))))"

definition save ::
  "('a, 'b, 'c) EtcdStore \<Rightarrow> 'a session \<Rightarrow> 'b world \<Rightarrow> error option \<times> 'b world" where
  "save s session w =
     (case Serialize (serializer s) session of
        Inl err \<Rightarrow> (Some err, w)
      | Inr b \<Rightarrow>
          if maxLength s \<noteq> 0 \<and> int (length b) > maxLength s then (Some ErrTooBig, w)
          else
            (let age = MaxAge (heap w (Options session));
                 age = (if age = 0 then DefaultMaxAge s else age)
             in case etcd_Grant (client s) age w of
                  (Inl err, w1) \<Rightarrow> (Some err, w1)
                | (Inr lease, w1) \<Rightarrow>
                    etcd_Put (client s) (keyPrefix s @ ID session) b (lease_ID lease) w1))"

definition delete ::
  "('a, 'b, 'c) EtcdStore \<Rightarrow> 'a session \<Rightarrow> 'b world \<Rightarrow> error option \<times> 'b world" where
  "delete s session w =
     (case etcd_Delete (client s) (keyPrefix s @ ID session) w of
        (Some err, w1) \<Rightarrow> (Some err, w1)
      | (None, w1) \<Rightarrow> (None, w1))"

subsection \<open>New, Save, Delete\<close>

text \<open>\<open>strings.TrimRight(s, "=")\<close>.\<close>

definition TrimRight_eq :: "string \<Rightarrow> string" where
  "TrimRight_eq s = rev (dropWhile (\<lambda>c. c = CHR ''='') (rev s))"

text \<open>
  \<open>New\<close> starts from \<open>sessions.NewSession\<close> (an empty value map, no identifier), points
  \<open>Options\<close> at a fresh copy of the store's options and sets \<open>IsNew\<close>. \<open>Save\<close> builds an
  identifier for a session that has none.
\<close>

definition ensure_ID :: "'c libs \<Rightarrow> 'a session \<Rightarrow> 'a session" where
  "ensure_ID L session =
     (if ID session = ''''
      then session\<lparr>ID := TrimRight_eq (EncodeToString L (GenerateRandomKey L 32))\<rparr>
      else session)"

definition new_session :: "string \<Rightarrow> nat \<Rightarrow> 'a session" where
  "new_session nm a = \<lparr>ID = [], name = nm, Values = [], Options = a, IsNew = True\<rparr>"

definition New ::
  "('a, 'b, 'c) EtcdStore \<Rightarrow> 'c libs \<Rightarrow> request \<Rightarrow> string \<Rightarrow> 'b world
     \<Rightarrow> ('a session \<times> error option) \<times> 'b world" where
  "New s L r nm w =
     (let a = next_addr w;
          w1 = w\<lparr>heap := (heap w)(a := heap w (options s)), next_addr := Suc a\<rparr>;
          session = new_session nm a
      in case map_of (cookies r) nm of
           None \<Rightarrow> ((session, None), w1)
         | Some cv \<Rightarrow>
             (case DecodeMulti L nm cv (Codecs s) of
                Inl err \<Rightarrow> ((session, Some err), w1)
              | Inr sid \<Rightarrow>
                  (case load s (session\<lparr>ID := sid\<rparr>) w1 of
                     ((ok, err), session1, w2) \<Rightarrow>
                       ((session1\<lparr>IsNew := \<not> (err = None \<and> ok)\<rparr>, err), w2))))"

definition Save ::
  "('a, 'b, 'c) EtcdStore \<Rightarrow> 'c libs \<Rightarrow> response_writer \<Rightarrow> 'a session \<Rightarrow> 'b world
     \<Rightarrow> error option \<times> 'a session \<times> response_writer \<times> 'b world" where
  "Save s L rw session w =
     (if MaxAge (heap w (Options session)) \<le> 0 then
        (case delete s session w of
           (Some err, w1) \<Rightarrow> (Some err, session, rw, w1)
         | (None, w1) \<Rightarrow>
             (None, session,
              SetCookie rw (NewCookie (name session) '''' (heap w1 (Options session))), w1))
      else
        (let session1 = ensure_ID L session
         in case save s session1 w of
              (Some err, w1) \<Rightarrow> (Some err, session1, rw, w1)
            | (None, w1) \<Rightarrow>
                (case EncodeMulti L (name session1) (ID session1) (Codecs s) of
                   Inl err \<Rightarrow> (Some err, session1, rw, w1)
                 | Inr encoded \<Rightarrow>
                     (None, session1,
                      SetCookie rw (NewCookie (name session1) encoded (heap w1 (Options session1))),
                      w1))))"

text \<open>The exported \<open>Delete\<close>: it expires the cookie on a copy of the options and clears the values.\<close>

definition Delete ::
  "('a, 'b, 'c) EtcdStore \<Rightarrow> response_writer \<Rightarrow> 'a session \<Rightarrow> 'b world
     \<Rightarrow> error option \<times> 'a session \<times> response_writer \<times> 'b world" where
  "Delete s rw session w =
     (case etcd_Delete (client s) (keyPrefix s @ ID session) w of
        (Some err, w1) \<Rightarrow> (Some err, session, rw, w1)
      | (None, w1) \<Rightarrow>
          (let opts = (heap w1 (Options session))\<lparr>MaxAge := - 1\<rparr>
           in (None, session\<lparr>Values := []\<rparr>,
               SetCookie rw (NewCookie (name session) '''' opts), w1)))"

section \<open>Notions the properties are stated with\<close>

text \<open>The type assertion \<open>k.(string)\<close> succeeds on a key.\<close>

fun is_string :: "'a iface \<Rightarrow> bool" where
  "is_string (Str _) = True"
| "is_string (Dyn _) = False"

text \<open>
  The effective max-age as the specification words it: the session's own \<open>MaxAge\<close> if
  nonzero, otherwise the store's default.
\<close>

definition effective_max_age :: "('a, 'b, 'c) EtcdStore \<Rightarrow> session_options \<Rightarrow> int" where
  "effective_max_age s opts = (if MaxAge opts \<noteq> 0 then MaxAge opts else DefaultMaxAge s)"

text \<open>The caller's assignment \<open>session.Options.MaxAge = v\<close>.\<close>

definition set_session_MaxAge :: "'a session \<Rightarrow> int \<Rightarrow> 'b world \<Rightarrow> 'b world" where
  "set_session_MaxAge session v w =
     w\<lparr>heap := (heap w)(Options session := (heap w (Options session))\<lparr>MaxAge := v\<rparr>)\<rparr>"

text \<open>
  A serializer that leaves the pointer \<open>session.Options\<close> where it is; both serializers of the
  package do.
\<close>

definition keeps_Options :: "'a serializer \<Rightarrow> bool" where
  "keeps_Options ser = (\<forall>d ss. Options (snd (Deserialize ser d ss)) = Options ss)"

text \<open>
  What the round trip of the text strategy needs from the library under it: the library
  encodes the map, and decodes the bytes to a map with the same entries.
\<close>

definition json_round_trips :: "'a json_lib \<Rightarrow> (string \<times> 'a iface) list \<Rightarrow> bool" where
  "json_round_trips J m =
     (case json_Marshal J m of
        Inl _ \<Rightarrow> False
      | Inr b \<Rightarrow>
          (case json_Unmarshal J b of
             Inl _ \<Rightarrow> False
           | Inr m' \<Rightarrow> distinct (map fst m') \<and> map_of m' = map_of m))"

text \<open>
  A cookie that expires at once. \<open>net/http\<close> renders a cookie with \<open>MaxAge < 0\<close> as
  \<^verbatim>\<open>Max-Age: 0\<close> (delete now) and renders no max-age for \<open>MaxAge = 0\<close>; \<open>sessions.NewCookie\<close>
  gives the cookie an expiry date in the past for \<open>MaxAge < 0\<close> only.
\<close>

definition immediately_expiring :: "cookie \<Rightarrow> bool" where
  "immediately_expiring c = (MaxAge (cookie_Options c) < 0)"

section \<open>Concrete inputs\<close>

text \<open>
  Go values other than strings that occur below: an \<open>int\<close>, the \<open>float64\<close> of an
  integral value, and a value of a named struct type that has not been registered with
  \<open>gob.Register\<close>.
\<close>

datatype go_value = GoInt int | GoFloat64 int | GoStruct string

text \<open>
  Two backends: one that keeps the records in memory and never fails, one that is
  unreachable.
\<close>

definition mem_client :: "(string \<times> bytes) list client" where
  "mem_client =
     \<lparr>clientGrant = (\<lambda>b ttl. (Inr \<lparr>lease_ID = 7\<rparr>, b)),
      clientPut = (\<lambda>b k v l. (None, AList.update k v b)),
      clientGet = (\<lambda>b k. (Inr (Some \<lparr>Kvs = (case map_of b k of
                                                  None \<Rightarrow> []
                                                | Some v \<Rightarrow> [\<lparr>kv_Key = k, kv_Value = v\<rparr>])\<rparr>), b)),
      clientDelete = (\<lambda>b k. (None, AList.delete k b))\<rparr>"

definition down_client :: "(string \<times> bytes) list client" where
  "down_client =
     \<lparr>clientGrant = (\<lambda>b ttl. (Inl (ErrExternal ''context deadline exceeded''), b)),
      clientPut = (\<lambda>b k v l. (Some (ErrExternal ''context deadline exceeded''), b)),
      clientGet = (\<lambda>b k. (Inl (ErrExternal ''context deadline exceeded''), b)),
      clientDelete = (\<lambda>b k. (Some (ErrExternal ''context deadline exceeded''), b))\<rparr>"

text \<open>
  What \<open>encoding/gob\<close> and \<open>encoding/json\<close> answer on the maps and payloads used below.
  \<open>gob\<close>'s \<open>Decode\<close> stores each decoded entry into the destination map it is given and
  does not empty that map first (the package documents that decoded values are merged into
  an existing destination), and its \<open>Encode\<close> refuses a value inside an \<open>interface{}\<close>
  whose type has not been registered. \<open>json.Unmarshal\<close> into an \<open>interface{}\<close> yields a
  \<open>float64\<close> for a JSON number, whatever Go type was marshalled.
\<close>

definition go_gob :: "go_value gob_lib" where
  "go_gob =
     \<lparr>gob_Encode = (\<lambda>vals.
        if vals = [(Str ''foo'', Str ''bar'')] then Inr ''<gob foo=bar>''
        else if vals = [(Dyn (GoInt 1), Str ''one'')] then Inr ''<gob 1=one>''
        else if vals = [(Dyn (GoInt 1), Dyn (GoStruct ''point''))]
          then Inl (ErrExternal ''gob: type not registered for interface: point'')
        else Inl (ErrExternal ''gob: type not registered'')),
      gob_Decode = (\<lambda>d dst.
        if d = ''<gob foo=bar>'' then (None, AList.update (Str ''foo'') (Str ''bar'') dst)
        else if d = ''<gob 1=one>'' then (None, AList.update (Dyn (GoInt 1)) (Str ''one'') dst)
        else (Some (ErrExternal ''unexpected EOF''), dst))\<rparr>"

text \<open>The JSON texts \<^verbatim>\<open>{"foo":"bar"}\<close> and \<^verbatim>\<open>{"n":1}\<close>, byte by byte.\<close>

definition json_foo_bar :: bytes where
  "json_foo_bar = ''{'' @ CHR 0x22 # ''foo'' @ CHR 0x22 # '':'' @ CHR 0x22 # ''bar'' @ CHR 0x22 # ''}''"

definition json_n_1 :: bytes where
  "json_n_1 = ''{'' @ CHR 0x22 # ''n'' @ CHR 0x22 # '':1}''"

definition go_json :: "go_value json_lib" where
  "go_json =
     \<lparr>json_Marshal = (\<lambda>m.
        if m = [(''foo'', Str ''bar'')] then Inr json_foo_bar
        else if m = [(''n'', Dyn (GoInt 1))] then Inr json_n_1
        else Inl (ErrExternal ''json: unsupported type'')),
      json_Unmarshal = (\<lambda>d.
        if d = json_foo_bar then Inr [(''foo'', Str ''bar'')]
        else if d = json_n_1 then Inr [(''n'', Dyn (GoFloat64 1))]
        else Inl (ErrExternal ''invalid character''))\<rparr>"

text \<open>
  The \<open>securecookie\<close> functions on the cookie values used below: \<open>signed:abc\<close> verifies and
  decodes to \<open>abc\<close>, anything else is rejected.
\<close>

definition libs0 :: "unit libs" where
  "libs0 =
     \<lparr>DecodeMulti = (\<lambda>n v cs. if v = ''signed:abc'' then Inr ''abc''
                               else Inl (ErrExternal ''securecookie: the value is not valid'')),
      EncodeMulti = (\<lambda>n v cs. Inr (''signed:'' @ v)),
      GenerateRandomKey = (\<lambda>n. replicate n (CHR ''k'')),
      EncodeToString = (\<lambda>b. ''NNVWW==='')\<rparr>"

definition opts0 :: session_options where
  "opts0 = \<lparr>Path = [], Domain = [], MaxAge = 0, Secure = False, HttpOnly = False\<rparr>"

definition world0 :: "(string \<times> bytes) list world" where
  "world0 = \<lparr>heap = (\<lambda>_. opts0), next_addr = 0, etcd = [], calls = []\<rparr>"

definition codecs0 :: "unit codec list" where
  "codecs0 = [SecureCookie \<lparr>hashKey = ''hash-key-1'', blockKey = [], maxAge = 86400 * 30\<rparr>,
              OtherCodec (),
              SecureCookie \<lparr>hashKey = ''hash-key-2'', blockKey = ''block-key'', maxAge = 86400 * 30\<rparr>]"

text \<open>The store \<open>NewEtcdStore\<close> builds, and the world after it: the store's options are at 0.\<close>

definition store0 :: "(go_value, (string \<times> bytes) list, unit) EtcdStore" where
  "store0 = fst (NewEtcdStore mem_client codecs0 go_gob world0)"

definition world1 :: "(string \<times> bytes) list world" where
  "world1 = snd (NewEtcdStore mem_client codecs0 (go_gob :: go_value gob_lib) world0)"

text \<open>A world in which a session's options, at address 1, have the max-age \<open>v\<close>.\<close>

definition world_age :: "int \<Rightarrow> (string \<times> bytes) list world" where
  "world_age v =
     world1\<lparr>heap := (heap world1)(1 := \<lparr>Path = ''/'', Domain = [], MaxAge = v,
                                         Secure = False, HttpOnly = False\<rparr>),
            next_addr := 2\<rparr>"

definition ss_foo :: "go_value session" where
  "ss_foo = \<lparr>ID = [], name = ''sid'', Values = [(Str ''foo'', Str ''bar'')], Options = 1,
             IsNew = True\<rparr>"

definition ss_abc :: "go_value session" where
  "ss_abc = \<lparr>ID = ''abc'', name = ''sid'', Values = [(Str ''foo'', Str ''bar'')], Options = 1,
             IsNew = False\<rparr>"

definition ss_n :: "go_value session" where
  "ss_n = \<lparr>ID = ''abc'', name = ''sid'', Values = [(Str ''n'', Dyn (GoInt 1))], Options = 1,
           IsNew = False\<rparr>"

definition ss_one :: "go_value session" where
  "ss_one = \<lparr>ID = ''abc'', name = ''sid'', Values = [(Dyn (GoInt 1), Str ''one'')], Options = 1,
             IsNew = False\<rparr>"

definition ss_point :: "go_value session" where
  "ss_point = \<lparr>ID = ''abc'', name = ''sid'',
               Values = [(Dyn (GoInt 1), Dyn (GoStruct ''point''))], Options = 1, IsNew = False\<rparr>"

text \<open>A session whose name, with its space, is not a valid cookie name.\<close>

definition ss_bad_name :: "go_value session" where
  "ss_bad_name = \<lparr>ID = ''abc'', name = ''bad name'', Values = [(Str ''foo'', Str ''bar'')],
                  Options = 1, IsNew = False\<rparr>"

definition ss_empty :: "go_value session" where
  "ss_empty = \<lparr>ID = ''abc'', name = ''sid'', Values = [], Options = 1, IsNew = True\<rparr>"

definition req_abc :: request where
  "req_abc = \<lparr>cookies = [(''sid'', ''signed:abc'')]\<rparr>"

definition req_forged :: request where
  "req_forged = \<lparr>cookies = [(''sid'', ''abc'')]\<rparr>"

definition req_none :: request where
  "req_none = \<lparr>cookies = []\<rparr>"

section \<open>Lemmas\<close>

lemmas fixture_defs = mem_client_def down_client_def go_gob_def go_json_def libs0_def opts0_def
  world0_def codecs0_def store0_def world1_def NewEtcdStore_def sessionExpire_def world_age_def
  json_foo_bar_def json_n_1_def ss_foo_def ss_abc_def ss_n_def ss_one_def ss_empty_def
  ss_point_def ss_bad_name_def isCookieNameValid_def IsTokenRune_def
  req_abc_def req_forged_def req_none_def

lemmas Save_eval = Save_def save_def delete_def ensure_ID_def TrimRight_eq_def etcd_Grant_def
  etcd_Put_def etcd_Delete_def SetCookie_def NewCookie_def GobSerializer_def
  GobSerializer_Serialize_def Let_def

lemmas ser_eval = JSONSerializer_Serialize_def JSONSerializer_Deserialize_def
  GobSerializer_Serialize_def GobSerializer_Deserialize_def json_round_trips_def

subsection \<open>The codec loop\<close>

lemma set_codecs_max_age_secure:
  "SecureCookie sc \<in> set (set_codecs_max_age v cs) \<Longrightarrow> maxAge sc = v"
  by (induction v cs rule: set_codecs_max_age.induct) auto

subsection \<open>The heap is touched by \<open>New\<close> alone\<close>

lemma etcd_Get_frame:
  "etcd_Get c k w = (r, w') \<Longrightarrow> heap w' = heap w \<and> next_addr w' = next_addr w"
  by (auto simp: etcd_Get_def split: prod.splits)

lemma load_frame:
  assumes "load s ss w = (r, ss', w')"
  shows "heap w' = heap w \<and> next_addr w' = next_addr w"
  using assms
  by (auto simp: load_def split: prod.splits sum.splits option.splits if_splits
      dest: etcd_Get_frame)

lemma load_Options:
  assumes "load s ss w = (r, ss', w')" and "keeps_Options (serializer s)"
  shows "Options ss' = Options ss"
  using assms
  apply (auto simp: load_def keeps_Options_def
      split: prod.splits sum.splits option.splits if_splits)
  by (metis snd_conv)

lemma New_alloc:
  assumes N: "New s L r nm w = ((ss, err), w')" and K: "keeps_Options (serializer s)"
  shows "Options ss = next_addr w \<and> next_addr w' = Suc (next_addr w) \<and>
         heap w' = (heap w)(next_addr w := heap w (options s))"
proof (cases "map_of (cookies r) nm")
  case None
  with N show ?thesis by (auto simp: New_def Let_def new_session_def)
next
  case (Some cv)
  show ?thesis
  proof (cases "DecodeMulti L nm cv (Codecs s)")
    case (Inl e)
    with N Some show ?thesis by (auto simp: New_def Let_def new_session_def)
  next
    case (Inr sid)
    define w1 where "w1 = w\<lparr>heap := (heap w)(next_addr w := heap w (options s)),
                              next_addr := Suc (next_addr w)\<rparr>"
    define s0 :: "'a session" where "s0 = (new_session nm (next_addr w))\<lparr>ID := sid\<rparr>"
    obtain ok e ss1 w2 where L: "load s s0 w1 = ((ok, e), ss1, w2)"
      by (metis prod.exhaust)
    from N Some Inr L have R: "ss = ss1\<lparr>IsNew := \<not> (e = None \<and> ok)\<rparr>" "w' = w2"
      by (auto simp: New_def Let_def w1_def s0_def)
    from load_frame [OF L] load_Options [OF L K] R show ?thesis
      by (simp add: w1_def s0_def new_session_def)
  qed
qed

lemma JSONSerializer_keeps_Options: "keeps_Options (JSONSerializer J)"
  by (simp add: keeps_Options_def JSONSerializer_def JSONSerializer_Deserialize_def
      split: sum.splits)

lemma GobSerializer_keeps_Options: "keeps_Options (GobSerializer G)"
  by (simp add: keeps_Options_def GobSerializer_def GobSerializer_Deserialize_def
      split: prod.splits)

subsection \<open>The exported Delete\<close>

text \<open>
  The exported \<open>Delete\<close> is the path that clears the value map and forces the cookie's
  max-age to -1, whatever the session's options say.
\<close>

lemma Delete_clears_values:
  assumes "Delete s rw ss w = (None, ss', rw', w')"
  shows "Values ss' = [] \<and>
         rw' = SetCookie rw (NewCookie (name ss) [] ((heap w (Options ss))\<lparr>MaxAge := - 1\<rparr>))"
  using assms
  by (auto simp: Delete_def etcd_Delete_def Let_def split: prod.splits option.splits)

subsection \<open>The loops of the JSON serializer\<close>

lemma json_merge_other:
  "k \<notin> Str ` fst ` set m \<Longrightarrow> map_of (json_merge m vals) k = map_of vals k"
  by (induction m vals rule: json_merge.induct) (auto simp: update_conv')

lemma json_merge_lookup:
  "distinct (map fst m) \<Longrightarrow>
   map_of (json_merge m vals) (Str k) =
     (case map_of m k of Some v \<Rightarrow> Some v | None \<Rightarrow> map_of vals (Str k))"
proof (induction m vals rule: json_merge.induct)
  case (1 vals)
  show ?case by simp
next
  case (2 k' v' m vals)
  then have IH: "map_of (json_merge m (AList.update (Str k') v' vals)) (Str k) =
      (case map_of m k of Some v \<Rightarrow> Some v
       | None \<Rightarrow> map_of (AList.update (Str k') v' vals) (Str k))"
    by simp
  from "2.prems" have "map_of m k' = None"
    by (simp add: map_of_eq_None_iff)
  with IH show ?case
    by (auto simp: update_conv' split: option.splits)
qed

lemma json_collect_ok:
  "\<forall>k \<in> fst ` set vals. is_string k \<Longrightarrow> \<exists>m'. json_collect vals m = Inr m'"
proof (induction vals m rule: json_collect.induct)
  case (1 m)
  show ?case by simp
next
  case (2 k v kvs m)
  then show ?case by (cases k) auto
qed

lemma json_collect_fail:
  "\<exists>k \<in> fst ` set vals. \<not> is_string k \<Longrightarrow> json_collect vals m = Inl ErrNonStringKey"
proof (induction vals m rule: json_collect.induct)
  case (1 m)
  then show ?case by simp
next
  case (2 k v kvs m)
  then show ?case by (cases k) auto
qed

lemma json_collect_distinct:
  "json_collect vals m = Inr m' \<Longrightarrow> distinct (map fst m) \<Longrightarrow> distinct (map fst m')"
proof (induction vals m rule: json_collect.induct)
  case (1 m)
  then show ?case by simp
next
  case (2 k v kvs m)
  then show ?case by (cases k) (auto simp: distinct_update)
qed

lemma json_collect_lookup:
  "json_collect vals m = Inr m' \<Longrightarrow> distinct (map fst vals) \<Longrightarrow>
   map_of m' ks = (case map_of vals (Str ks) of Some v \<Rightarrow> Some v | None \<Rightarrow> map_of m ks)"
proof (induction vals m rule: json_collect.induct)
  case (1 m)
  then show ?case by simp
next
  case (2 k v kvs m)
  show ?case
  proof (cases k)
    case (Dyn x)
    with "2.prems" show ?thesis by simp
  next
    case (Str k0)
    with "2.prems" have C: "json_collect kvs (AList.update k0 v m) = Inr m'"
      and D: "distinct (map fst kvs)" and N: "map_of kvs (Str k0) = None"
      by (auto simp: map_of_eq_None_iff)
    from "2.IH" [OF Str C D]
    have "map_of m' ks = (case map_of kvs (Str ks) of Some v \<Rightarrow> Some v
                          | None \<Rightarrow> map_of (AList.update k0 v m) ks)" .
    with Str N show ?thesis
      by (auto simp: update_conv' split: option.splits)
  qed
qed

lemma string_keys_lookup_Dyn:
  "\<forall>k \<in> fst ` set vals. is_string k \<Longrightarrow> map_of vals (Dyn x) = None"
  by (force simp: map_of_eq_None_iff)

lemma json_round_trip:
  assumes D: "distinct (map fst (Values ss))"
      and S: "\<forall>k \<in> fst ` set (Values ss). is_string k"
      and C: "json_collect (Values ss) [] = Inr m"
      and R: "json_round_trips J m"
      and T: "Values t = []"
  shows "\<exists>b t'. JSONSerializer_Serialize J ss = Inr b \<and>
           JSONSerializer_Deserialize J b t = (None, t') \<and>
           map_of (Values t') = map_of (Values ss)"
proof -
  from R obtain b m' where M: "json_Marshal J m = Inr b" and U: "json_Unmarshal J b = Inr m'"
    and D': "distinct (map fst m')" and E: "map_of m' = map_of m"
    by (auto simp: json_round_trips_def split: sum.splits)
  have "map_of (json_merge m' []) k = map_of (Values ss) k" for k
  proof (cases k)
    case (Str ks)
    have "map_of (json_merge m' []) (Str ks) = map_of m' ks"
      using json_merge_lookup [OF D', of "[]" ks] by (simp split: option.splits)
    also have "\<dots> = map_of m ks" by (simp add: E)
    also have "\<dots> = map_of (Values ss) (Str ks)"
      using json_collect_lookup [OF C D, of ks] by (simp split: option.splits)
    finally show ?thesis by (simp add: Str)
  next
    case (Dyn x)
    have "map_of (json_merge m' []) (Dyn x) = None"
      using json_merge_other [of "Dyn x" m' "[]"] by auto
    with string_keys_lookup_Dyn [OF S, of x] show ?thesis by (simp add: Dyn)
  qed
  then have "map_of (json_merge m' []) = map_of (Values ss)" by (rule ext)
  with C M U T show ?thesis
    by (simp add: JSONSerializer_Serialize_def JSONSerializer_Deserialize_def)
qed

section \<open>The properties\<close>

subsection \<open>C7: SetMaxAge reaches the store's options and every SecureCookie codec\<close>

text \<open>
  Claim C7. For every value \<open>v\<close>, after \<open>SetMaxAge(v)\<close> the store's default
  \<open>Options.MaxAge\<close> equals \<open>v\<close>, and so does the age limit of every \<open>SecureCookie\<close> codec in
  the store's codec list.
\<close>

theorem SetMaxAge_propagates:
  "MaxAge (heap (snd (SetMaxAge s v w)) (options (fst (SetMaxAge s v w)))) = v \<and>
   (\<forall>c \<in> set (Codecs (fst (SetMaxAge s v w))). \<forall>sc. c = SecureCookie sc \<longrightarrow> maxAge sc = v)"
  by (auto simp: SetMaxAge_def Let_def dest: set_codecs_max_age_secure)

text \<open>
  On the store of \<open>NewEtcdStore\<close> with two \<open>SecureCookie\<close> codecs and one codec of another
  type, \<open>SetMaxAge(10)\<close> sets all three places.
\<close>

theorem SetMaxAge_propagates_witness:
  "MaxAge (heap (snd (SetMaxAge store0 10 world1)) (options (fst (SetMaxAge store0 10 world1)))) = 10 \<and>
   Codecs (fst (SetMaxAge store0 10 world1)) =
     [SecureCookie \<lparr>hashKey = ''hash-key-1'', blockKey = [], maxAge = 10\<rparr>,
      OtherCodec (),
      SecureCookie \<lparr>hashKey = ''hash-key-2'', blockKey = ''block-key'', maxAge = 10\<rparr>]"
  using SetMaxAge_propagates [of store0 10 world1]
  by (simp add: SetMaxAge_def fixture_defs Let_def)

subsection \<open>C9: no cookie when Save fails\<close>

text \<open>
  Claim C9. Whenever \<open>Save\<close> returns an error, whichever step produced it, the response
  writer is as it was: no cookie has been set.
\<close>

theorem Save_error_no_cookie:
  "fst (Save s L rw session w) \<noteq> None \<Longrightarrow> fst (snd (snd (Save s L rw session w))) = rw"
  by (auto simp: Save_def Let_def split: if_splits prod.splits option.splits sum.splits)

text \<open>With an unreachable backend the lease grant fails, and the response has no cookie.\<close>

theorem Save_error_no_cookie_witness:
  "fst (Save (store0\<lparr>client := down_client\<rparr>) libs0 [] ss_foo (world_age 86400))
     = Some (ErrExternal ''context deadline exceeded'') \<and>
   fst (snd (snd (Save (store0\<lparr>client := down_client\<rparr>) libs0 [] ss_foo (world_age 86400)))) = []"
  using Save_error_no_cookie [of "store0\<lparr>client := down_client\<rparr>" libs0 "[]" ss_foo "world_age 86400"]
  by (simp add: Save_eval fixture_defs)

subsection \<open>C5: the lease lasts the session's effective max-age\<close>

text \<open>
  Claim C5. For every session saved with \<open>Options.MaxAge > 0\<close>, the lease granted for the
  store record has the session's effective max-age as its TTL. Whatever \<open>Save\<close> returns, the
  calls it adds hold no grant with another TTL; when it returns no error, the calls it adds
  are that grant and the put of the record under the lease the grant returned.
\<close>

theorem Save_lease_ttl:
  assumes "0 < MaxAge (heap w (Options ss))"
      and "Save s L rw ss w = (err, ss', rw', w')"
  shows "\<exists>new. calls w' = calls w @ new \<and>
           (\<forall>ttl. CallGrant ttl \<in> set new \<longrightarrow> ttl = effective_max_age s (heap w (Options ss))) \<and>
           (err = None \<longrightarrow>
              (\<exists>b l. new = [CallGrant (effective_max_age s (heap w (Options ss))),
                            CallPut (keyPrefix s @ ID ss') b (lease_ID l)] \<and>
                     fst (clientGrant (client s) (etcd w)
                            (effective_max_age s (heap w (Options ss)))) = Inr l))"
  using assms
  by (auto simp: Save_def save_def Let_def etcd_Grant_def etcd_Put_def effective_max_age_def
      ensure_ID_def
      split: if_splits prod.splits option.splits sum.splits)

text \<open>
  A session with the values \<open>{"foo": "bar"}\<close> and \<open>MaxAge = 86400\<close>: the backend is asked for
  a lease of 86400 seconds and the record is put under it.
\<close>

theorem Save_lease_ttl_witness:
  "0 < MaxAge (heap (world_age 86400) (Options ss_foo)) \<and>
   effective_max_age store0 (heap (world_age 86400) (Options ss_foo)) = 86400 \<and>
   fst (Save store0 libs0 [] ss_foo (world_age 86400)) = None \<and>
   calls (snd (snd (snd (Save store0 libs0 [] ss_foo (world_age 86400))))) =
     [CallGrant 86400, CallPut ''session_NNVWW'' ''<gob foo=bar>'' 7]"
  using Save_lease_ttl [of "world_age 86400" ss_foo store0 libs0 "[]"
      "fst (Save store0 libs0 [] ss_foo (world_age 86400))"
      "fst (snd (Save store0 libs0 [] ss_foo (world_age 86400)))"
      "fst (snd (snd (Save store0 libs0 [] ss_foo (world_age 86400))))"
      "snd (snd (snd (Save store0 libs0 [] ss_foo (world_age 86400))))"]
  by (simp add: Save_eval fixture_defs effective_max_age_def)

subsection \<open>C10: New copies the store's options\<close>

text \<open>
  Claim C10. \<open>New\<close> gives every session it returns its own copy of the store's default
  options. For two sessions returned by \<open>New\<close>: their \<open>Options\<close> pointers differ from each
  other and from the store's, each starts as a copy of the store's options, and after the
  assignment \<open>session.Options.MaxAge = v\<close> on the first, the store's options and the second
  session's options are what they were. The store's serializer is one that leaves
  \<open>session.Options\<close> alone, as the two serializers of the package do.
\<close>

theorem New_options_copied:
  assumes "New s L r nm w = ((ss1, e1), w1)"
      and "New s L r' nm' w1 = ((ss2, e2), w2)"
      and "keeps_Options (serializer s)"
      and "options s < next_addr w"
  shows "Options ss1 \<noteq> options s \<and> Options ss2 \<noteq> options s \<and> Options ss1 \<noteq> Options ss2 \<and>
         heap w1 (Options ss1) = heap w (options s) \<and>
         heap w2 (Options ss2) = heap w (options s) \<and>
         heap (set_session_MaxAge ss1 v w2) (options s) = heap w (options s) \<and>
         heap (set_session_MaxAge ss1 v w2) (Options ss2) = heap w (options s) \<and>
         MaxAge (heap (set_session_MaxAge ss1 v w2) (Options ss1)) = v"
  using New_alloc [OF assms(1) assms(3)] New_alloc [OF assms(2) assms(3)] assms(4)
  by (simp add: set_session_MaxAge_def)

text \<open>
  Two sessions from the store of \<open>NewEtcdStore\<close> (options at 0, \<open>MaxAge\<close> 30 days): they get
  the addresses 1 and 2, and \<open>MaxAge = -1\<close> on the first changes address 1 only.
\<close>

theorem New_options_copied_witness:
  "keeps_Options (serializer store0) \<and> options store0 < next_addr world1 \<and>
   options store0 = 0 \<and>
   Options (fst (fst (New store0 libs0 req_none ''a'' world1))) = 1 \<and>
   Options (fst (fst (New store0 libs0 req_none ''b''
                        (snd (New store0 libs0 req_none ''a'' world1))))) = 2 \<and>
   MaxAge (heap (set_session_MaxAge (fst (fst (New store0 libs0 req_none ''a'' world1))) (- 1)
                  (snd (New store0 libs0 req_none ''b''
                         (snd (New store0 libs0 req_none ''a'' world1))))) 0) = 86400 * 30 \<and>
   MaxAge (heap (set_session_MaxAge (fst (fst (New store0 libs0 req_none ''a'' world1))) (- 1)
                  (snd (New store0 libs0 req_none ''b''
                         (snd (New store0 libs0 req_none ''a'' world1))))) 2) = 86400 * 30 \<and>
   MaxAge (heap (set_session_MaxAge (fst (fst (New store0 libs0 req_none ''a'' world1))) (- 1)
                  (snd (New store0 libs0 req_none ''b''
                         (snd (New store0 libs0 req_none ''a'' world1))))) 1) = - 1"
  using New_options_copied [of store0 libs0 req_none "''a''" world1
      "fst (fst (New store0 libs0 req_none ''a'' world1))"
      "snd (fst (New store0 libs0 req_none ''a'' world1))"
      "snd (New store0 libs0 req_none ''a'' world1)"
      req_none "''b''"
      "fst (fst (New store0 libs0 req_none ''b'' (snd (New store0 libs0 req_none ''a'' world1))))"
      "snd (fst (New store0 libs0 req_none ''b'' (snd (New store0 libs0 req_none ''a'' world1))))"
      "snd (New store0 libs0 req_none ''b'' (snd (New store0 libs0 req_none ''a'' world1)))"
      "- 1"]
    GobSerializer_keeps_Options [of go_gob]
  by (simp add: New_def Let_def fixture_defs set_session_MaxAge_def new_session_def)

subsection \<open>C1: Save of a session marked for deletion\<close>

text \<open>
  Claim C1, as the code has it. For every session whose \<open>Options.MaxAge\<close> is \<open>\<le> 0\<close>, \<open>Save\<close>
  makes one backend call, the delete of the record \<open>keyPrefix + ID\<close>. When the delete
  succeeds, \<open>Save\<close> returns no error and, if the session's name is a valid cookie name, sets
  a cookie with that name, an empty value and the session's own options; that cookie is
  immediately expiring when \<open>MaxAge < 0\<close>. With a name that is not a valid cookie name no
  cookie is set, and still no error is returned. When the delete fails, \<open>Save\<close> returns the
  backend's error and sets no cookie. In every case the session is returned as it was
  given: its value map is not cleared.
\<close>

theorem Save_marked_for_deletion:
  assumes "MaxAge (heap w (Options ss)) \<le> 0"
      and "clientDelete (client s) (etcd w) (keyPrefix s @ ID ss) = (r, b)"
  shows "Save s L rw ss w =
           (r, ss,
            (case r of
               None \<Rightarrow> if isCookieNameValid (name ss)
                       then rw @ [NewCookie (name ss) [] (heap w (Options ss))]
                       else rw
             | Some e \<Rightarrow> rw),
            w\<lparr>etcd := b, calls := calls w @ [CallDelete (keyPrefix s @ ID ss)]\<rparr>) \<and>
         (MaxAge (heap w (Options ss)) < 0 \<longrightarrow>
            immediately_expiring (NewCookie (name ss) [] (heap w (Options ss))))"
  using assms
  by (auto simp: Save_def delete_def etcd_Delete_def SetCookie_def NewCookie_def
      immediately_expiring_def split: option.splits)

text \<open>
  A stored session \<open>abc\<close> with \<open>MaxAge = -1\<close> and the valid name \<open>sid\<close>: the record is gone
  from the backend and the response carries the immediately expiring cookie.
\<close>

theorem Save_marked_for_deletion_witness:
  "MaxAge (heap (world_age (- 1)) (Options ss_abc)) \<le> 0 \<and>
   MaxAge (heap (world_age (- 1)) (Options ss_abc)) < 0 \<and>
   isCookieNameValid (name ss_abc) \<and>
   Save store0 libs0 [] ss_abc ((world_age (- 1))\<lparr>etcd := [(''session_abc'', ''<gob foo=bar>'')]\<rparr>) =
     (None, ss_abc,
      [\<lparr>cookie_Name = ''sid'', cookie_Value = [],
        cookie_Options = \<lparr>Path = ''/'', Domain = [], MaxAge = - 1, Secure = False,
                           HttpOnly = False\<rparr>\<rparr>],
      (world_age (- 1))\<lparr>etcd := [], calls := [CallDelete ''session_abc'']\<rparr>) \<and>
   immediately_expiring
     \<lparr>cookie_Name = ''sid'', cookie_Value = [],
      cookie_Options = \<lparr>Path = ''/'', Domain = [], MaxAge = - 1, Secure = False,
                         HttpOnly = False\<rparr>\<rparr>"
  using Save_marked_for_deletion
    [of "(world_age (- 1))\<lparr>etcd := [(''session_abc'', ''<gob foo=bar>'')]\<rparr>"
      ss_abc store0 None "[]" libs0 "[]"]
  by (simp add: fixture_defs NewCookie_def)

text \<open>
  The claim as first stated fails in four ways. It has \<open>Save\<close> clear the session's value
  map: after a successful \<open>Save\<close> with \<open>MaxAge = -1\<close> the session still holds
  \<open>{"foo": "bar"}\<close>. It has the cookie expire at once for every \<open>MaxAge \<le> 0\<close>: with
  \<open>MaxAge = 0\<close> the cookie set carries the max-age 0, which is not an immediate expiry. It
  has a cookie set for every session: with the name \<open>bad name\<close> \<open>Save\<close> returns no error and
  the response has no cookie. And it has the record removed for every session: with the
  backend unreachable \<open>Save\<close> returns the backend's error and sets no cookie.
\<close>

theorem Save_keeps_values_counterexample:
  "MaxAge (heap (world_age (- 1)) (Options ss_abc)) \<le> 0 \<and>
   fst (Save store0 libs0 [] ss_abc (world_age (- 1))) = None \<and>
   Values (fst (snd (Save store0 libs0 [] ss_abc (world_age (- 1))))) = [(Str ''foo'', Str ''bar'')] \<and>
   MaxAge (heap (world_age 0) (Options ss_abc)) \<le> 0 \<and>
   fst (Save store0 libs0 [] ss_abc (world_age 0)) = None \<and>
   fst (snd (snd (Save store0 libs0 [] ss_abc (world_age 0)))) =
     [\<lparr>cookie_Name = ''sid'', cookie_Value = [],
       cookie_Options = \<lparr>Path = ''/'', Domain = [], MaxAge = 0, Secure = False,
                          HttpOnly = False\<rparr>\<rparr>] \<and>
   \<not> immediately_expiring
       \<lparr>cookie_Name = ''sid'', cookie_Value = [],
        cookie_Options = \<lparr>Path = ''/'', Domain = [], MaxAge = 0, Secure = False,
                           HttpOnly = False\<rparr>\<rparr> \<and>
   MaxAge (heap (world_age (- 1)) (Options ss_bad_name)) \<le> 0 \<and>
   fst (Save store0 libs0 [] ss_bad_name (world_age (- 1))) = None \<and>
   fst (snd (snd (Save store0 libs0 [] ss_bad_name (world_age (- 1))))) = [] \<and>
   fst (Save (store0\<lparr>client := down_client\<rparr>) libs0 [] ss_abc (world_age (- 1)))
     = Some (ErrExternal ''context deadline exceeded'') \<and>
   fst (snd (snd (Save (store0\<lparr>client := down_client\<rparr>) libs0 [] ss_abc (world_age (- 1))))) = []"
  by (simp add: Save_eval fixture_defs immediately_expiring_def)

subsection \<open>C3: the size limit\<close>

text \<open>
  Claim C3, as the code has it. For every session with \<open>Options.MaxAge > 0\<close> whose serialized
  payload is longer than the configured nonzero max length, \<open>Save\<close> fails with the error
  \<open>ErrTooBig\<close> of the size check and makes no backend call: the world, its record of calls
  included, is unchanged, and no cookie is set.
\<close>

theorem Save_too_big:
  assumes "0 < MaxAge (heap w (Options ss))"
      and "Serialize (serializer s) (ensure_ID L ss) = Inr b"
      and "maxLength s \<noteq> 0" and "int (length b) > maxLength s"
  shows "Save s L rw ss w = (Some ErrTooBig, ensure_ID L ss, rw, w)"
  using assms
  by (auto simp: Save_def save_def Let_def)

text \<open>With a max length of 4 the 13 bytes of the payload are refused.\<close>

theorem Save_too_big_witness:
  "0 < MaxAge (heap (world_age 86400) (Options ss_abc)) \<and>
   Serialize (serializer (SetMaxLength store0 4)) (ensure_ID libs0 ss_abc) = Inr ''<gob foo=bar>'' \<and>
   maxLength (SetMaxLength store0 4) = 4 \<and>
   Save (SetMaxLength store0 4) libs0 [] ss_abc (world_age 86400) =
     (Some ErrTooBig, ss_abc, [], world_age 86400)"
  using Save_too_big [of "world_age 86400" ss_abc "SetMaxLength store0 4" libs0 "''<gob foo=bar>''" "[]"]
  by (simp add: fixture_defs SetMaxLength_def ensure_ID_def GobSerializer_def
      GobSerializer_Serialize_def)

text \<open>
  Without the condition on \<open>MaxAge\<close> the claim fails: the same session with \<open>MaxAge = -1\<close>
  takes the deletion branch of \<open>Save\<close>, which never serializes; \<open>Save\<close> returns no error and
  has called the backend's delete.
\<close>

theorem Save_deletion_skips_size_check_counterexample:
  "Serialize (serializer (SetMaxLength store0 4)) ss_abc = Inr ''<gob foo=bar>'' \<and>
   maxLength (SetMaxLength store0 4) \<noteq> 0 \<and>
   int (length ''<gob foo=bar>'') > maxLength (SetMaxLength store0 4) \<and>
   fst (Save (SetMaxLength store0 4) libs0 [] ss_abc (world_age (- 1))) = None \<and>
   calls (snd (snd (snd (Save (SetMaxLength store0 4) libs0 [] ss_abc (world_age (- 1)))))) =
     [CallDelete ''session_abc'']"
  by (simp add: Save_eval fixture_defs SetMaxLength_def)

subsection \<open>C6: what load reports\<close>

text \<open>
  Claim C6, as the code has it. For every session identifier, a load whose backend get
  returns no response, or a response with a number of records other than one, reports
  "absent" (not found, no error) and leaves the session as it was; a failing get is reported
  as not found with the backend's error. An error is returned only when the get itself
  fails, or when exactly one record is found and deserializing its value fails: \<open>load\<close>
  then reports "found" together with the serializer's error.
\<close>

theorem load_result:
  assumes "clientGet (client s) (etcd w) (keyPrefix s @ ID ss) = (r, b)"
  shows "(r = Inr None \<or> (\<exists>resp. r = Inr (Some resp) \<and> length (Kvs resp) \<noteq> 1) \<longrightarrow>
            load s ss w = ((False, None), ss,
              w\<lparr>etcd := b, calls := calls w @ [CallGet (keyPrefix s @ ID ss)]\<rparr>)) \<and>
         (\<forall>e. r = Inl e \<longrightarrow>
            load s ss w = ((False, Some e), ss,
              w\<lparr>etcd := b, calls := calls w @ [CallGet (keyPrefix s @ ID ss)]\<rparr>)) \<and>
         (\<forall>e. snd (fst (load s ss w)) = Some e \<longrightarrow>
            r = Inl e \<or>
            (\<exists>resp. r = Inr (Some resp) \<and> length (Kvs resp) = 1 \<and>
               fst (load s ss w) = (True, Some e) \<and>
               fst (Deserialize (serializer s) (kv_Value (Kvs resp ! 0)) ss) = Some e))"
  using assms
  by (auto simp: load_def etcd_Get_def split: prod.splits sum.splits option.splits if_splits)

text \<open>
  An identifier with no record in the backend is reported absent; with the backend
  unreachable the get's error is returned.
\<close>

theorem load_result_witness:
  "clientGet (client store0) (etcd world1) (keyPrefix store0 @ ID ss_abc)
     = (Inr (Some \<lparr>Kvs = []\<rparr>), []) \<and>
   length (Kvs \<lparr>Kvs = []\<rparr>) \<noteq> 1 \<and>
   load store0 ss_abc world1 = ((False, None), ss_abc, world1\<lparr>calls := [CallGet ''session_abc'']\<rparr>) \<and>
   clientGet down_client (etcd world1) (keyPrefix store0 @ ID ss_abc)
     = (Inl (ErrExternal ''context deadline exceeded''), []) \<and>
   load (store0\<lparr>client := down_client\<rparr>) ss_abc world1
     = ((False, Some (ErrExternal ''context deadline exceeded'')), ss_abc,
        world1\<lparr>calls := [CallGet ''session_abc'']\<rparr>)"
  using load_result [of store0 world1 ss_abc "Inr (Some \<lparr>Kvs = []\<rparr>)" "[]"]
    load_result [of "store0\<lparr>client := down_client\<rparr>" world1 ss_abc
      "Inl (ErrExternal ''context deadline exceeded'')" "[]"]
  by (simp add: fixture_defs)

text \<open>
  The claim as first stated has an error returned only when the get fails. Here the get
  succeeds with one record, whose value the serializer cannot decode, and \<open>load\<close> returns
  the serializer's error.
\<close>

theorem load_deserialize_error_counterexample:
  "fst (clientGet (client store0) [(''session_abc'', ''garbage'')] (keyPrefix store0 @ ID ss_abc))
     = Inr (Some \<lparr>Kvs = [\<lparr>kv_Key = ''session_abc'', kv_Value = ''garbage''\<rparr>]\<rparr>) \<and>
   fst (load store0 ss_abc (world1\<lparr>etcd := [(''session_abc'', ''garbage'')]\<rparr>))
     = (True, Some (ErrExternal ''unexpected EOF''))"
  by (simp add: load_def etcd_Get_def GobSerializer_def GobSerializer_Deserialize_def
      fixture_defs)

subsection \<open>C2: the errors New returns\<close>

text \<open>
  Claim C2, as the code has it. In \<open>New\<close>, with a cookie of the session's name in the
  request: an identifier-decode error is returned alongside a new, empty session with
  \<open>IsNew = true\<close>. When the identifier decodes and the load fails, the load's error is
  returned as well, not swallowed: the error of a failing backend get alongside a new, empty
  session that carries the decoded identifier, and the error of a failing deserialization
  alongside the session as the serializer left it, both with \<open>IsNew = true\<close>. Only when the
  load reports "absent" does the caller receive a new, empty session with no error.
\<close>

theorem New_surfaces_errors:
  assumes "map_of (cookies r) nm = Some cv"
  shows "(\<forall>e. DecodeMulti L nm cv (Codecs s) = Inl e \<longrightarrow>
            fst (New s L r nm w) = (new_session nm (next_addr w), Some e)) \<and>
         (\<forall>sid. DecodeMulti L nm cv (Codecs s) = Inr sid \<longrightarrow>
            (\<forall>e. fst (clientGet (client s) (etcd w) (keyPrefix s @ sid)) = Inl e \<longrightarrow>
               fst (New s L r nm w) = ((new_session nm (next_addr w))\<lparr>ID := sid\<rparr>, Some e)) \<and>
            (\<forall>kv e ss1. fst (clientGet (client s) (etcd w) (keyPrefix s @ sid))
                          = Inr (Some \<lparr>Kvs = [kv]\<rparr>) \<longrightarrow>
               Deserialize (serializer s) (kv_Value kv) ((new_session nm (next_addr w))\<lparr>ID := sid\<rparr>)
                 = (Some e, ss1) \<longrightarrow>
               fst (New s L r nm w) = (ss1\<lparr>IsNew := True\<rparr>, Some e)) \<and>
            (fst (clientGet (client s) (etcd w) (keyPrefix s @ sid)) = Inr None \<or>
             (\<exists>resp. fst (clientGet (client s) (etcd w) (keyPrefix s @ sid)) = Inr (Some resp) \<and>
                     length (Kvs resp) \<noteq> 1) \<longrightarrow>
               fst (New s L r nm w) = ((new_session nm (next_addr w))\<lparr>ID := sid\<rparr>, None)))"
  using assms
  by (auto simp: New_def Let_def load_def etcd_Get_def new_session_def
      split: prod.splits sum.splits option.splits if_splits)

text \<open>
  A cookie whose value does not verify: the caller gets the decode error and a new, empty
  session. A cookie that verifies, with a record that does not decode: the caller gets the
  serializer's error. A cookie that verifies, with no record: a new session and no error.
\<close>

theorem New_surfaces_errors_witness:
  "map_of (cookies req_forged) ''sid'' = Some ''abc'' \<and>
   DecodeMulti libs0 ''sid'' ''abc'' (Codecs store0)
     = Inl (ErrExternal ''securecookie: the value is not valid'') \<and>
   fst (New store0 libs0 req_forged ''sid'' world1)
     = (\<lparr>ID = [], name = ''sid'', Values = [], Options = 1, IsNew = True\<rparr>,
        Some (ErrExternal ''securecookie: the value is not valid'')) \<and>
   map_of (cookies req_abc) ''sid'' = Some ''signed:abc'' \<and>
   DecodeMulti libs0 ''sid'' ''signed:abc'' (Codecs store0) = Inr ''abc'' \<and>
   fst (clientGet (client store0) [(''session_abc'', ''garbage'')] (keyPrefix store0 @ ''abc''))
     = Inr (Some \<lparr>Kvs = [\<lparr>kv_Key = ''session_abc'', kv_Value = ''garbage''\<rparr>]\<rparr>) \<and>
   fst (New store0 libs0 req_abc ''sid'' (world1\<lparr>etcd := [(''session_abc'', ''garbage'')]\<rparr>))
     = (\<lparr>ID = ''abc'', name = ''sid'', Values = [], Options = 1, IsNew = True\<rparr>,
        Some (ErrExternal ''unexpected EOF'')) \<and>
   fst (clientGet (client store0) (etcd world1) (keyPrefix store0 @ ''abc''))
     = Inr (Some \<lparr>Kvs = []\<rparr>) \<and>
   fst (New store0 libs0 req_abc ''sid'' world1)
     = (\<lparr>ID = ''abc'', name = ''sid'', Values = [], Options = 1, IsNew = True\<rparr>, None)"
  using New_surfaces_errors [of req_forged "''sid''" "''abc''" libs0 store0 world1]
    New_surfaces_errors [of req_abc "''sid''" "''signed:abc''" libs0 store0
      "world1\<lparr>etcd := [(''session_abc'', ''garbage'')]\<rparr>"]
    New_surfaces_errors [of req_abc "''sid''" "''signed:abc''" libs0 store0 world1]
  by (simp add: fixture_defs new_session_def GobSerializer_def GobSerializer_Deserialize_def)

text \<open>
  The claim as first stated has the error of a failing load swallowed. Here the cookie's
  identifier decodes to \<open>abc\<close>, the backend is unreachable, and \<open>New\<close> returns the backend's
  error with the session.
\<close>

theorem New_load_error_counterexample:
  "map_of (cookies req_abc) ''sid'' = Some ''signed:abc'' \<and>
   DecodeMulti libs0 ''sid'' ''signed:abc'' (Codecs store0) = Inr ''abc'' \<and>
   fst (New (store0\<lparr>client := down_client\<rparr>) libs0 req_abc ''sid'' world1)
     = (\<lparr>ID = ''abc'', name = ''sid'', Values = [], Options = 1, IsNew = True\<rparr>,
        Some (ErrExternal ''context deadline exceeded''))"
  by (simp add: New_def load_def etcd_Get_def Let_def fixture_defs new_session_def)

subsection \<open>C4: round trips of the serializers\<close>

text \<open>
  Claim C4, as the code has it. Take a value map (each key once) and an empty session to
  deserialize into. If all keys are strings, the text strategy hands \<open>json.Marshal\<close> the
  map with its keys unwrapped (the same entries, each key once), and, provided the JSON
  library decodes the bytes it produced to the same entries, deserializing the
  serialization yields a value map equal to the original. If some key is not a string, the
  text strategy fails with the serialization error \<open>ErrNonStringKey\<close>. The binary strategy
  adds nothing of its own: what it returns for a session is what gob's \<open>Encode\<close> returns for
  the session's value map, an error included, and what it leaves in an empty session is
  what gob's \<open>Decode\<close> yields for an empty destination.
\<close>

theorem serializers_round_trip:
  assumes "distinct (map fst (Values ss))" and "Values t = []"
  shows "((\<forall>k \<in> fst ` set (Values ss). is_string k) \<longrightarrow>
            (\<exists>m. json_collect (Values ss) [] = Inr m \<and>
                 distinct (map fst m) \<and>
                 (\<forall>k. map_of m k = map_of (Values ss) (Str k)) \<and>
                 JSONSerializer_Serialize J ss = json_Marshal J m \<and>
                 (json_round_trips J m \<longrightarrow>
                    (\<exists>b t'. JSONSerializer_Serialize J ss = Inr b \<and>
                       JSONSerializer_Deserialize J b t = (None, t') \<and>
                       map_of (Values t') = map_of (Values ss))))) \<and>
         ((\<exists>k \<in> fst ` set (Values ss). \<not> is_string k) \<longrightarrow>
            JSONSerializer_Serialize J ss = Inl ErrNonStringKey) \<and>
         GobSerializer_Serialize G ss = gob_Encode G (Values ss) \<and>
         GobSerializer_Deserialize G d t =
           (fst (gob_Decode G d []), t\<lparr>Values := snd (gob_Decode G d [])\<rparr>)"
proof (intro conjI impI)
  assume S: "\<forall>k \<in> fst ` set (Values ss). is_string k"
  from json_collect_ok [OF S, of "[]"] obtain m where C: "json_collect (Values ss) [] = Inr m" ..
  have D: "distinct (map fst m)"
    using json_collect_distinct [OF C] by simp
  have E: "\<forall>k. map_of m k = map_of (Values ss) (Str k)"
  proof
    fix k
    from json_collect_lookup [OF C assms(1), of k] S show "map_of m k = map_of (Values ss) (Str k)"
      by (simp split: option.splits)
  qed
  have M: "JSONSerializer_Serialize J ss = json_Marshal J m"
    by (simp add: JSONSerializer_Serialize_def C)
  from C D E M json_round_trip [OF assms(1) S C _ assms(2), of J]
  show "\<exists>m. json_collect (Values ss) [] = Inr m \<and>
             distinct (map fst m) \<and>
             (\<forall>k. map_of m k = map_of (Values ss) (Str k)) \<and>
             JSONSerializer_Serialize J ss = json_Marshal J m \<and>
             (json_round_trips J m \<longrightarrow>
                (\<exists>b t'. JSONSerializer_Serialize J ss = Inr b \<and>
                   JSONSerializer_Deserialize J b t = (None, t') \<and>
                   map_of (Values t') = map_of (Values ss)))"
    by blast
next
  assume "\<exists>k \<in> fst ` set (Values ss). \<not> is_string k"
  then show "JSONSerializer_Serialize J ss = Inl ErrNonStringKey"
    by (simp add: JSONSerializer_Serialize_def json_collect_fail)
next
  show "GobSerializer_Serialize G ss = gob_Encode G (Values ss)"
    by (simp add: GobSerializer_Serialize_def split: sum.splits)
next
  show "GobSerializer_Deserialize G d t =
          (fst (gob_Decode G d []), t\<lparr>Values := snd (gob_Decode G d [])\<rparr>)"
    using assms(2) by (simp add: GobSerializer_Deserialize_def split: prod.splits)
qed

text \<open>
  The map \<open>{"foo": "bar"}\<close> through the text strategy, and the map \<open>{1: "one"}\<close>, which the
  text strategy refuses, through the binary one.
\<close>

theorem serializers_round_trip_witness:
  "distinct (map fst (Values ss_abc)) \<and> Values ss_empty = [] \<and>
   list_all is_string (map fst (Values ss_abc)) \<and>
   json_collect (Values ss_abc) [] = Inr [(''foo'', Str ''bar'')] \<and>
   json_round_trips go_json [(''foo'', Str ''bar'')] \<and>
   JSONSerializer_Serialize go_json ss_abc = Inr json_foo_bar \<and>
   JSONSerializer_Deserialize go_json json_foo_bar ss_empty
     = (None, ss_empty\<lparr>Values := [(Str ''foo'', Str ''bar'')]\<rparr>) \<and>
   distinct (map fst (Values ss_one)) \<and>
   \<not> list_all is_string (map fst (Values ss_one)) \<and>
   JSONSerializer_Serialize go_json ss_one = Inl ErrNonStringKey \<and>
   GobSerializer_Serialize go_gob ss_one = Inr ''<gob 1=one>'' \<and>
   GobSerializer_Deserialize go_gob ''<gob 1=one>'' ss_empty
     = (None, ss_empty\<lparr>Values := [(Dyn (GoInt 1), Str ''one'')]\<rparr>)"
  using serializers_round_trip [of ss_abc ss_empty go_json go_gob "''<gob 1=one>''"]
    serializers_round_trip [of ss_one ss_empty go_json go_gob "''<gob 1=one>''"]
  by (simp add: ser_eval fixture_defs)

text \<open>
  The claim as first stated fails for both strategies. Text: the map \<open>{"n": 1}\<close>, whose one
  key is a string and whose value is an \<open>int\<close>, comes back with the \<open>float64\<close> 1 under
  \<open>n\<close>, which is not the value that went in. Binary: the map \<open>{1: point}\<close>, whose key is
  not a string and whose value is of a struct type not registered with gob, does not
  serialize at all.
\<close>

theorem json_round_trip_counterexample:
  "Values ss_n = [(Str ''n'', Dyn (GoInt 1))] \<and> is_string (Str ''n'' :: go_value iface) \<and>
   JSONSerializer_Serialize go_json ss_n = Inr json_n_1 \<and>
   JSONSerializer_Deserialize go_json json_n_1 ss_empty
     = (None, ss_empty\<lparr>Values := [(Str ''n'', Dyn (GoFloat64 1))]\<rparr>) \<and>
   map_of [(Str ''n'', Dyn (GoFloat64 1))] (Str ''n'') \<noteq> map_of (Values ss_n) (Str ''n'') \<and>
   Values ss_point = [(Dyn (GoInt 1), Dyn (GoStruct ''point''))] \<and>
   \<not> is_string (Dyn (GoInt 1) :: go_value iface) \<and>
   GobSerializer_Serialize go_gob ss_point
     = Inl (ErrExternal ''gob: type not registered for interface: point'')"
  by (simp add: ser_eval fixture_defs)

subsection \<open>C8: what deserializing does to the entries already in the session\<close>

text \<open>
  Claim C8, as the code has it. For every session and byte payload, text-strategy
  deserialize merges the decoded entries into the session's existing value map: it returns
  no error when the payload unmarshals, every entry whose key is not in the payload
  survives, every decoded entry is in the map afterwards, and a payload that does not
  unmarshal leaves the session untouched. Binary-strategy deserialize does not clear or
  replace the value map itself: it hands the existing map to the gob decoder as the
  destination, and the value map afterwards is what the decoder left there.
\<close>

theorem Deserialize_target:
  "(\<forall>m. json_Unmarshal J d = Inr m \<longrightarrow>
      fst (JSONSerializer_Deserialize J d ss) = None \<and>
      (\<forall>k. k \<notin> Str ` fst ` set m \<longrightarrow>
         map_of (Values (snd (JSONSerializer_Deserialize J d ss))) k = map_of (Values ss) k) \<and>
      (distinct (map fst m) \<longrightarrow>
         (\<forall>k v. map_of m k = Some v \<longrightarrow>
            map_of (Values (snd (JSONSerializer_Deserialize J d ss))) (Str k) = Some v))) \<and>
   (\<forall>e. json_Unmarshal J d = Inl e \<longrightarrow> JSONSerializer_Deserialize J d ss = (Some e, ss)) \<and>
   GobSerializer_Deserialize G d ss =
     (fst (gob_Decode G d (Values ss)), ss\<lparr>Values := snd (gob_Decode G d (Values ss))\<rparr>)"
  by (auto simp: JSONSerializer_Deserialize_def GobSerializer_Deserialize_def json_merge_other
      json_merge_lookup split: prod.splits)

text \<open>
  A session that holds \<open>foo\<close> takes the payload \<open>{"n": 1}\<close> through the text strategy and
  holds both entries; a payload that is not JSON leaves it as it was.
\<close>

theorem Deserialize_target_witness:
  "json_Unmarshal go_json json_n_1 = Inr [(''n'', Dyn (GoFloat64 1))] \<and>
   Str ''foo'' \<notin> Str ` fst ` set [(''n'', Dyn (GoFloat64 1) :: go_value iface)] \<and>
   distinct (map fst [(''n'', Dyn (GoFloat64 1) :: go_value iface)]) \<and>
   JSONSerializer_Deserialize go_json json_n_1 ss_abc
     = (None, ss_abc\<lparr>Values := [(Str ''foo'', Str ''bar''), (Str ''n'', Dyn (GoFloat64 1))]\<rparr>) \<and>
   json_Unmarshal go_json ''{'' = Inl (ErrExternal ''invalid character'') \<and>
   JSONSerializer_Deserialize go_json ''{'' ss_abc = (Some (ErrExternal ''invalid character''), ss_abc)"
  using Deserialize_target [of go_json json_n_1 ss_abc go_gob]
    Deserialize_target [of go_json "''{''" ss_abc go_gob]
  by (simp add: ser_eval fixture_defs)

text \<open>
  The claim as first stated has binary-strategy deserialize replace the value map with the
  decoded one. The payload decodes to \<open>{1: "one"}\<close>; deserialized into a session that holds
  \<open>foo\<close>, it leaves a value map with both entries, which is not the decoded map.
\<close>

theorem gob_Deserialize_keeps_entries_counterexample:
  "Values ss_abc = [(Str ''foo'', Str ''bar'')] \<and>
   gob_Decode go_gob ''<gob 1=one>'' [] = (None, [(Dyn (GoInt 1), Str ''one'')]) \<and>
   GobSerializer_Deserialize go_gob ''<gob 1=one>'' ss_abc
     = (None, ss_abc\<lparr>Values := [(Str ''foo'', Str ''bar''), (Dyn (GoInt 1), Str ''one'')]\<rparr>)"
  by (simp add: ser_eval fixture_defs)

end
